theory Spec2Isabelle
  imports Main "HOL-Library.AList"
begin

section \<open>The in-process debug-pipe server (dbus-server-debug-pipe.c)\<close>

text \<open>
  A shallow embedding of \<^verbatim>\<open>dbus/dbus-server-debug-pipe.c\<close>. The two file-level
  variables \<^verbatim>\<open>server_pipe_hash\<close> and \<^verbatim>\<open>server_pipe_hash_refcount\<close>, and the
  objects the functions allocate, are fields of one explicit state that every function
  takes and returns. Pointers are natural numbers into tables of objects, a \<^verbatim>\<open>NULL\<close>
  pointer is \<open>None\<close>. Every call that can run out of memory asks a fault plan
  (a predicate on allocation sites) whether it succeeds. A failed \<^verbatim>\<open>_dbus_assert\<close>
  and a read through a pointer to a freed object end the run with a fault.
\<close>

subsection \<open>Errors, faults and allocation sites\<close>

datatype dbus_error_name =
    DBUS_ERROR_ADDRESS_IN_USE
  | DBUS_ERROR_NO_MEMORY
  | DBUS_ERROR_NO_SERVER
  | DBUS_ERROR_FAILED

text \<open>What \<^verbatim>\<open>dbus_set_error (error, name, message)\<close> stores: the name, and the message
  (\<open>None\<close> for a \<^verbatim>\<open>NULL\<close> message). An error that was never set is \<open>None\<close>.\<close>

type_synonym DBusError = "dbus_error_name \<times> string option"

datatype fault = AssertionFailed | InvalidPointer

datatype alloc_site =
    HashTableNew
  | ServerNew0
  | StringInit
  | StringAppendPrefix
  | StringAppendName
  | Strdup
  | ServerInitBase
  | HashTableInsert
  | FullDuplexPipe
  | ClientTransportNew
  | ServerTransportNew
  | SetAuthMechanisms
  | ConnectionNew

subsection \<open>Objects\<close>

text \<open>
  The acceptor callback is code of the caller: line 309 calls it through a function
  pointer. It is modelled as the list of the calls it makes into this file and on the
  objects it can reach: reference, release and disconnect the server it is handed or
  another server, reference and release the connection it is handed, and create an
  endpoint under a name with the allocation sites that fail in that call. A callback that
  itself calls \<^verbatim>\<open>_dbus_transport_debug_pipe_new\<close> is not among them.
\<close>

datatype cb_action =
    CbServerRef
  | CbServerUnref
  | CbServerDisconnect
  | CbConnectionRef
  | CbConnectionUnref
  | CbOtherServerRef nat
  | CbOtherServerUnref nat
  | CbOtherServerDisconnect nat
  | CbServerNew "alloc_site list" string

text \<open>\<^verbatim>\<open>struct DBusServerDebugPipe\<close>: the members of the parent class \<^verbatim>\<open>DBusServer\<close>
  that this file reads (prefix \<open>base_\<close>), then \<^verbatim>\<open>name\<close> and \<^verbatim>\<open>disconnected\<close>.\<close>

record DBusServerDebugPipe =
  base_refcount :: int
  base_address :: "string option"
  base_new_connection_function :: "cb_action list option"
  base_auth_mechanisms :: "string list option"
  name :: "string option"
  disconnected :: bool

record DBusTransport =
  t_refcount :: int
  t_fd :: nat
  t_is_server :: bool
  t_address :: "string option"
  t_auth_mechanisms :: "string list option"

record DBusConnection =
  c_refcount :: int
  c_transport :: nat

text \<open>
  The state. \<open>servers\<close> holds the allocated \<^verbatim>\<open>DBusServerDebugPipe\<close> objects, and
  \<^verbatim>\<open>dbus_free\<close> removes one. Transports and connections stay in their tables when their
  last reference goes, with reference count 0, so that what a call created can still be
  read after it. \<open>live_strings\<close> counts the \<^verbatim>\<open>DBusString\<close> buffers initialised and not
  yet freed, \<open>open_fds\<close> lists the open descriptors, \<open>next_id\<close> is the next fresh
  pointer or descriptor. The C \<^verbatim>\<open>int\<close> counters are unbounded integers: they move by one
  per live object and never come near the machine bounds.
\<close>

record pipe_state =
  server_pipe_hash :: "(string \<times> nat) list option"
  server_pipe_hash_refcount :: int
  servers :: "(nat \<times> DBusServerDebugPipe) list"
  transports :: "(nat \<times> DBusTransport) list"
  connections :: "(nat \<times> DBusConnection) list"
  live_strings :: nat
  open_fds :: "nat list"
  next_id :: nat

definition initial_state :: pipe_state where
  "initial_state =
     \<lparr>server_pipe_hash = None, server_pipe_hash_refcount = 0, servers = [],
      transports = [], connections = [], live_strings = 0, open_fds = [], next_id = 1\<rparr>"

subsection \<open>The registry: \<^verbatim>\<open>pipe_hash_ref\<close>, \<^verbatim>\<open>pipe_hash_unref\<close>\<close>

text \<open>Modelled from the spec: \<^verbatim>\<open>_dbus_hash_table_new\<close>, \<^verbatim>\<open>_dbus_hash_table_lookup_string\<close>
  and \<^verbatim>\<open>_dbus_hash_table_insert_string\<close> of dbus-hash.c are not in this file. The table is a
  mapping from names to endpoints, kept as an association list: a new table is empty,
  lookup returns the endpoint registered under the name or \<^verbatim>\<open>NULL\<close>, and insertion puts
  the endpoint under the name or fails for lack of memory, changing nothing.\<close>

definition dbus_hash_table_lookup_string :: "(string \<times> nat) list \<Rightarrow> string \<Rightarrow> nat option" where
  "dbus_hash_table_lookup_string h key = map_of h key"

text \<open>Modelled from the spec: \<^verbatim>\<open>_dbus_hash_table_insert_string\<close> when it succeeds; the name gets the endpoint, whatever it had before.\<close>

definition dbus_hash_table_insert_string :: "(string \<times> nat) list \<Rightarrow> string \<Rightarrow> nat \<Rightarrow> (string \<times> nat) list" where
  "dbus_hash_table_insert_string h key v = AList.update key v h"

text \<open>\<^verbatim>\<open>pipe_hash_ref\<close>, lines 67 to 83. With no table, the count is asserted to be 0 and a
  table is made; failing that, the function returns \<^verbatim>\<open>FALSE\<close>. Then line 80 stores 1
  in the count.\<close>

definition pipe_hash_ref :: "(alloc_site \<Rightarrow> bool) \<Rightarrow> pipe_state \<Rightarrow> fault + (bool \<times> pipe_state)" where
  "pipe_hash_ref ok s =
     (if server_pipe_hash s = None then
        (if server_pipe_hash_refcount s \<noteq> 0 then Inl AssertionFailed
         else if ok HashTableNew
           then Inr (True, s\<lparr>server_pipe_hash := Some [], server_pipe_hash_refcount := 1\<rparr>)
           else Inr (False, s))
      else Inr (True, s\<lparr>server_pipe_hash_refcount := 1\<rparr>))"

text \<open>\<^verbatim>\<open>pipe_hash_unref\<close>, lines 85 to 97.\<close>

definition pipe_hash_unref :: "pipe_state \<Rightarrow> fault + pipe_state" where
  "pipe_hash_unref s =
     (if server_pipe_hash s = None then Inl AssertionFailed
      else if server_pipe_hash_refcount s > 0 then
        (let s1 = s\<lparr>server_pipe_hash_refcount := server_pipe_hash_refcount s - 1\<rparr>
         in if server_pipe_hash_refcount s1 = 0
            then Inr (s1\<lparr>server_pipe_hash := None\<rparr>)
            else Inr s1)
      else Inl AssertionFailed)"

subsection \<open>The parent class and the collaborators\<close>

text \<open>A write through a pointer to a server object.\<close>

definition server_update :: "nat \<Rightarrow> (DBusServerDebugPipe \<Rightarrow> DBusServerDebugPipe) \<Rightarrow> pipe_state \<Rightarrow> pipe_state" where
  "server_update p f s =
     (case map_of (servers s) p of
        None \<Rightarrow> s
      | Some v \<Rightarrow> s\<lparr>servers := AList.update p (f v) (servers s)\<rparr>)"

text \<open>Modelled from the spec: \<^verbatim>\<open>dbus_new0\<close>, \<^verbatim>\<open>dbus_free\<close>, \<^verbatim>\<open>_dbus_strdup\<close>,
  \<^verbatim>\<open>_dbus_string_init\<close>, \<^verbatim>\<open>_dbus_string_append\<close> and \<^verbatim>\<open>_dbus_string_free\<close> (memory and
  string utilities) are not in this file. \<^verbatim>\<open>dbus_new0 (DBusServerDebugPipe, 1)\<close> gives a
  fresh object with all members zero and \<^verbatim>\<open>dbus_free\<close> takes it away again; a string
  buffer is live from its initialisation to \<^verbatim>\<open>_dbus_string_free\<close>; the appended text and
  the duplicated name are the values the function computes with.\<close>

definition dbus_new0 :: "pipe_state \<Rightarrow> nat \<times> pipe_state" where
  "dbus_new0 s =
     (next_id s,
      s\<lparr>servers := AList.update (next_id s)
           \<lparr>base_refcount = 0, base_address = None, base_new_connection_function = None,
            base_auth_mechanisms = None, name = None, disconnected = False\<rparr> (servers s),
        next_id := next_id s + 1\<rparr>)"

text \<open>Modelled from the spec: \<^verbatim>\<open>dbus_free\<close> on a server object; the object is gone from the table.\<close>

definition dbus_free_server :: "nat \<Rightarrow> pipe_state \<Rightarrow> pipe_state" where
  "dbus_free_server p s = s\<lparr>servers := AList.delete p (servers s)\<rparr>"

text \<open>Modelled from the spec: \<^verbatim>\<open>_dbus_string_init\<close> when it succeeds; one more buffer is live.\<close>

definition dbus_string_init :: "pipe_state \<Rightarrow> pipe_state" where
  "dbus_string_init s = s\<lparr>live_strings := Suc (live_strings s)\<rparr>"

text \<open>Modelled from the spec: \<^verbatim>\<open>_dbus_string_free\<close>; one buffer fewer is live.\<close>

definition dbus_string_free :: "pipe_state \<Rightarrow> pipe_state" where
  "dbus_string_free s = s\<lparr>live_strings := live_strings s - 1\<rparr>"

text \<open>Modelled from the spec: \<^verbatim>\<open>_dbus_server_init_base\<close>, \<^verbatim>\<open>_dbus_server_finalize_base\<close>,
  \<^verbatim>\<open>dbus_server_ref\<close>, \<^verbatim>\<open>dbus_server_unref\<close> and \<^verbatim>\<open>dbus_server_set_new_connection_function\<close>
  of dbus-server.c are not in this file. The base holds a reference count, a copy of the
  address, the acceptor callback and the list of authentication mechanisms. Initialising
  it gives the creator the first reference; the finalizer of the virtual table
  (here always \<^verbatim>\<open>debug_finalize\<close>) runs when the last reference is released.\<close>

definition dbus_server_init_base :: "nat \<Rightarrow> string \<Rightarrow> pipe_state \<Rightarrow> pipe_state" where
  "dbus_server_init_base p address s =
     server_update p (\<lambda>v. v\<lparr>base_refcount := 1, base_address := Some address,
                             base_new_connection_function := None,
                             base_auth_mechanisms := None\<rparr>) s"

text \<open>Modelled from the spec: \<^verbatim>\<open>_dbus_server_finalize_base\<close>; the address, the callback and the mechanisms held by the base are released.\<close>

definition dbus_server_finalize_base :: "nat \<Rightarrow> pipe_state \<Rightarrow> pipe_state" where
  "dbus_server_finalize_base p s =
     server_update p (\<lambda>v. v\<lparr>base_address := None, base_new_connection_function := None,
                             base_auth_mechanisms := None\<rparr>) s"


text \<open>\<^verbatim>\<open>debug_finalize\<close>, lines 99 to 110: release the registry, finalize the base, free
  the name, free the object.\<close>

definition debug_finalize :: "nat \<Rightarrow> pipe_state \<Rightarrow> fault + pipe_state" where
  "debug_finalize server s =
     (case pipe_hash_unref s of
        Inl e \<Rightarrow> Inl e
      | Inr s1 \<Rightarrow>
          (case map_of (servers s1) server of
             None \<Rightarrow> Inl InvalidPointer
           | Some v \<Rightarrow>
               Inr (dbus_free_server server
                     (server_update server (\<lambda>v. v\<lparr>name := None\<rparr>)
                       (dbus_server_finalize_base server s1)))))"

text \<open>\<^verbatim>\<open>debug_disconnect\<close>, lines 112 to 116.\<close>

definition debug_disconnect :: "nat \<Rightarrow> pipe_state \<Rightarrow> fault + pipe_state" where
  "debug_disconnect server s =
     (case map_of (servers s) server of
        None \<Rightarrow> Inl InvalidPointer
      | Some v \<Rightarrow> Inr (server_update server (\<lambda>v. v\<lparr>disconnected := True\<rparr>) s))"

text \<open>Modelled from the spec: \<^verbatim>\<open>dbus_server_ref\<close>; one more reference on the server.\<close>

definition dbus_server_ref :: "nat \<Rightarrow> pipe_state \<Rightarrow> fault + pipe_state" where
  "dbus_server_ref server s =
     (case map_of (servers s) server of
        None \<Rightarrow> Inl InvalidPointer
      | Some v \<Rightarrow> Inr (server_update server (\<lambda>v. v\<lparr>base_refcount := base_refcount v + 1\<rparr>) s))"

text \<open>Modelled from the spec: \<^verbatim>\<open>dbus_server_unref\<close>; one reference fewer, and the finalizer of the virtual table,
  \<^verbatim>\<open>debug_finalize\<close>, when none is left.\<close>

definition dbus_server_unref :: "nat \<Rightarrow> pipe_state \<Rightarrow> fault + pipe_state" where
  "dbus_server_unref server s =
     (case map_of (servers s) server of
        None \<Rightarrow> Inl InvalidPointer
      | Some v \<Rightarrow>
          (let s1 = server_update server (\<lambda>v. v\<lparr>base_refcount := base_refcount v - 1\<rparr>) s
           in if base_refcount v - 1 = 0 then debug_finalize server s1 else Inr s1))"

subsection \<open>\<^verbatim>\<open>_dbus_server_debug_pipe_new\<close>\<close>

text \<open>The unwinding labels of lines 179 to 190; each falls through to the next.\<close>

definition nomem_0 :: "pipe_state \<Rightarrow> fault + ((nat option \<times> DBusError option) \<times> pipe_state)" where
  "nomem_0 s =
     (case pipe_hash_unref s of
        Inl e \<Rightarrow> Inl e
      | Inr s1 \<Rightarrow> Inr ((None, Some (DBUS_ERROR_NO_MEMORY, None)), s1))"

definition nomem_1 :: "nat \<Rightarrow> pipe_state \<Rightarrow> fault + ((nat option \<times> DBusError option) \<times> pipe_state)" where
  "nomem_1 debug_server s = nomem_0 (dbus_free_server debug_server s)"

definition nomem_2 :: "nat \<Rightarrow> pipe_state \<Rightarrow> fault + ((nat option \<times> DBusError option) \<times> pipe_state)" where
  "nomem_2 debug_server s = nomem_1 debug_server (dbus_string_free s)"

definition nomem_3 :: "nat \<Rightarrow> pipe_state \<Rightarrow> fault + ((nat option \<times> DBusError option) \<times> pipe_state)" where
  "nomem_3 debug_server s =
     nomem_2 debug_server (server_update debug_server (\<lambda>v. v\<lparr>name := None\<rparr>) s)"

definition nomem_4 :: "nat \<Rightarrow> pipe_state \<Rightarrow> fault + ((nat option \<times> DBusError option) \<times> pipe_state)" where
  "nomem_4 debug_server s = nomem_3 debug_server (dbus_server_finalize_base debug_server s)"

text \<open>
  \<^verbatim>\<open>_dbus_server_debug_pipe_new\<close>, lines 130 to 191. The result is the returned pointer
  (\<open>None\<close> for \<^verbatim>\<open>NULL\<close>) and the content of the \<^verbatim>\<open>error\<close> out-parameter, which is clear
  (\<open>None\<close>) on entry. Line 140 returns without setting it.
\<close>

definition dbus_server_debug_pipe_new ::
  "(alloc_site \<Rightarrow> bool) \<Rightarrow> string \<Rightarrow> pipe_state \<Rightarrow> fault + ((nat option \<times> DBusError option) \<times> pipe_state)" where
  "dbus_server_debug_pipe_new ok server_name s =
     (case pipe_hash_ref ok s of
        Inl e \<Rightarrow> Inl e
      | Inr (False, s1) \<Rightarrow> Inr ((None, None), s1)
      | Inr (True, s1) \<Rightarrow>
          (case server_pipe_hash s1 of
             None \<Rightarrow> Inl InvalidPointer
           | Some h \<Rightarrow>
               if dbus_hash_table_lookup_string h server_name \<noteq> None then
                 (case pipe_hash_unref s1 of
                    Inl e \<Rightarrow> Inl e
                  | Inr s2 \<Rightarrow> Inr ((None, Some (DBUS_ERROR_ADDRESS_IN_USE, None)), s2))
               else if \<not> ok ServerNew0 then nomem_0 s1
               else
                 (let (debug_server, s2) = dbus_new0 s1 in
                  if \<not> ok StringInit then nomem_1 debug_server s2
                  else
                    (let s3 = dbus_string_init s2 in
                     if \<not> (ok StringAppendPrefix \<and> ok StringAppendName) then nomem_2 debug_server s3
                     else
                       (let address = ''debug-pipe:name='' @ server_name in
                        if \<not> ok Strdup then nomem_2 debug_server s3
                        else
                          (let s4 = server_update debug_server (\<lambda>v. v\<lparr>name := Some server_name\<rparr>) s3 in
                           if \<not> ok ServerInitBase then nomem_3 debug_server s4
                           else
                             (let s5 = dbus_server_init_base debug_server address s4 in
                              if \<not> ok HashTableInsert then nomem_4 debug_server s5
                              else
                                Inr ((Some debug_server, None),
                                     dbus_string_free
                                       (s5\<lparr>server_pipe_hash :=
                                             Some (dbus_hash_table_insert_string h server_name debug_server)\<rparr>)))))))))"

subsection \<open>Transports and connections\<close>

text \<open>Modelled from the spec: \<^verbatim>\<open>_dbus_full_duplex_pipe\<close>, \<^verbatim>\<open>_dbus_close\<close>,
  \<^verbatim>\<open>_dbus_transport_new_for_fd\<close>, \<^verbatim>\<open>_dbus_transport_unref\<close>,
  \<^verbatim>\<open>_dbus_transport_set_auth_mechanisms\<close>, \<^verbatim>\<open>_dbus_connection_new_for_transport\<close>,
  \<^verbatim>\<open>dbus_connection_ref\<close> and \<^verbatim>\<open>dbus_connection_unref\<close> are not in this file. The pipe
  gives two fresh open descriptors. A transport wraps one descriptor and carries the
  server flag and the address it was made with; its creator holds its first reference,
  and when the last one goes the transport closes its descriptor. A connection holds a
  reference on its transport and releases it when its own last reference goes.\<close>

definition dbus_full_duplex_pipe :: "pipe_state \<Rightarrow> nat \<times> nat \<times> pipe_state" where
  "dbus_full_duplex_pipe s =
     (next_id s, next_id s + 1,
      s\<lparr>open_fds := open_fds s @ [next_id s, next_id s + 1], next_id := next_id s + 2\<rparr>)"

text \<open>Modelled from the spec: \<^verbatim>\<open>_dbus_close\<close>; the descriptor is no longer open.\<close>

definition dbus_close :: "nat \<Rightarrow> pipe_state \<Rightarrow> pipe_state" where
  "dbus_close fd s = s\<lparr>open_fds := removeAll fd (open_fds s)\<rparr>"

text \<open>Modelled from the spec: \<^verbatim>\<open>_dbus_transport_new_for_fd (fd, server, address)\<close> when it succeeds; a fresh transport
  with one reference, holding the descriptor, the server flag and the address.\<close>

definition dbus_transport_new_for_fd :: "nat \<Rightarrow> bool \<Rightarrow> string option \<Rightarrow> pipe_state \<Rightarrow> nat \<times> pipe_state" where
  "dbus_transport_new_for_fd fd server address s =
     (next_id s,
      s\<lparr>transports := AList.update (next_id s)
           \<lparr>t_refcount = 1, t_fd = fd, t_is_server = server, t_address = address,
            t_auth_mechanisms = None\<rparr> (transports s),
        next_id := next_id s + 1\<rparr>)"

text \<open>Modelled from the spec: \<^verbatim>\<open>_dbus_transport_ref\<close>; one more reference on the transport.\<close>

definition dbus_transport_ref :: "nat \<Rightarrow> pipe_state \<Rightarrow> pipe_state" where
  "dbus_transport_ref t s =
     (case map_of (transports s) t of
        None \<Rightarrow> s
      | Some v \<Rightarrow> s\<lparr>transports := AList.update t (v\<lparr>t_refcount := t_refcount v + 1\<rparr>) (transports s)\<rparr>)"

text \<open>Modelled from the spec: \<^verbatim>\<open>_dbus_transport_unref\<close>; one reference fewer, and the descriptor closed when none is
  left.\<close>

definition dbus_transport_unref :: "nat \<Rightarrow> pipe_state \<Rightarrow> pipe_state" where
  "dbus_transport_unref t s =
     (case map_of (transports s) t of
        None \<Rightarrow> s
      | Some v \<Rightarrow>
          (let s1 = s\<lparr>transports := AList.update t (v\<lparr>t_refcount := t_refcount v - 1\<rparr>) (transports s)\<rparr>
           in if t_refcount v - 1 = 0 then dbus_close (t_fd v) s1 else s1))"

text \<open>Modelled from the spec: \<^verbatim>\<open>_dbus_transport_set_auth_mechanisms\<close> when it succeeds; the transport stores the list.\<close>

definition dbus_transport_set_auth_mechanisms :: "nat \<Rightarrow> string list option \<Rightarrow> pipe_state \<Rightarrow> pipe_state" where
  "dbus_transport_set_auth_mechanisms t mechanisms s =
     (case map_of (transports s) t of
        None \<Rightarrow> s
      | Some v \<Rightarrow> s\<lparr>transports := AList.update t (v\<lparr>t_auth_mechanisms := mechanisms\<rparr>) (transports s)\<rparr>)"

text \<open>Modelled from the spec: \<^verbatim>\<open>_dbus_connection_new_for_transport\<close> when it succeeds; a fresh connection with one
  reference, holding a reference of its own on the transport.\<close>

definition dbus_connection_new_for_transport :: "nat \<Rightarrow> pipe_state \<Rightarrow> nat \<times> pipe_state" where
  "dbus_connection_new_for_transport t s =
     (next_id s,
      dbus_transport_ref t
        (s\<lparr>connections := AList.update (next_id s) \<lparr>c_refcount = 1, c_transport = t\<rparr> (connections s),
           next_id := next_id s + 1\<rparr>))"

text \<open>Modelled from the spec: \<^verbatim>\<open>dbus_connection_ref\<close>; one more reference on the connection.\<close>

definition dbus_connection_ref :: "nat \<Rightarrow> pipe_state \<Rightarrow> pipe_state" where
  "dbus_connection_ref c s =
     (case map_of (connections s) c of
        None \<Rightarrow> s
      | Some v \<Rightarrow> s\<lparr>connections := AList.update c (v\<lparr>c_refcount := c_refcount v + 1\<rparr>) (connections s)\<rparr>)"

text \<open>Modelled from the spec: \<^verbatim>\<open>dbus_connection_unref\<close>; one reference fewer, and the transport released when none
  is left.\<close>

definition dbus_connection_unref :: "nat \<Rightarrow> pipe_state \<Rightarrow> pipe_state" where
  "dbus_connection_unref c s =
     (case map_of (connections s) c of
        None \<Rightarrow> s
      | Some v \<Rightarrow>
          (let s1 = s\<lparr>connections := AList.update c (v\<lparr>c_refcount := c_refcount v - 1\<rparr>) (connections s)\<rparr>
           in if c_refcount v - 1 = 0 then dbus_transport_unref (c_transport v) s1 else s1))"

subsection \<open>The acceptor callback and the hand-off\<close>

text \<open>One call of the callback, and the callback as the sequence of its calls; a fault
  ends it. The server and the connection are the arguments of the call of line 309. The
  callback drops the pointer that a creation returns.\<close>

fun cb_step :: "nat \<Rightarrow> nat \<Rightarrow> cb_action \<Rightarrow> pipe_state \<Rightarrow> fault + pipe_state" where
  "cb_step server connection CbServerRef s = dbus_server_ref server s"
| "cb_step server connection CbServerUnref s = dbus_server_unref server s"
| "cb_step server connection CbServerDisconnect s = debug_disconnect server s"
| "cb_step server connection CbConnectionRef s = Inr (dbus_connection_ref connection s)"
| "cb_step server connection CbConnectionUnref s = Inr (dbus_connection_unref connection s)"
| "cb_step server connection (CbOtherServerRef p) s = dbus_server_ref p s"
| "cb_step server connection (CbOtherServerUnref p) s = dbus_server_unref p s"
| "cb_step server connection (CbOtherServerDisconnect p) s = debug_disconnect p s"
| "cb_step server connection (CbServerNew fails server_name) s =
     (case dbus_server_debug_pipe_new (\<lambda>site. site \<notin> set fails) server_name s of
        Inl e \<Rightarrow> Inl e
      | Inr (r, s1) \<Rightarrow> Inr s1)"

fun run_callback :: "nat \<Rightarrow> nat \<Rightarrow> cb_action list \<Rightarrow> pipe_state \<Rightarrow> fault + pipe_state" where
  "run_callback server connection [] s = Inr s"
| "run_callback server connection (a # as) s =
     (case cb_step server connection a s of
        Inl e \<Rightarrow> Inl e
      | Inr s1 \<Rightarrow> run_callback server connection as s1)"

text \<open>Lines 303 to 312: with a callback set, the server is referenced, the callback is
  called, and the server is unreferenced.\<close>

definition hand_off :: "nat \<Rightarrow> nat \<Rightarrow> pipe_state \<Rightarrow> fault + pipe_state" where
  "hand_off server connection s =
     (case map_of (servers s) server of
        None \<Rightarrow> Inl InvalidPointer
      | Some v \<Rightarrow>
          (case base_new_connection_function v of
             None \<Rightarrow> Inr s
           | Some f \<Rightarrow>
               (case dbus_server_ref server s of
                  Inl e \<Rightarrow> Inl e
                | Inr s1 \<Rightarrow>
                    (case run_callback server connection f s1 of
                       Inl e \<Rightarrow> Inl e
                     | Inr s2 \<Rightarrow> dbus_server_unref server s2))))"

subsection \<open>\<^verbatim>\<open>_dbus_transport_debug_pipe_new\<close>\<close>

text \<open>
  \<^verbatim>\<open>_dbus_transport_debug_pipe_new\<close>, lines 202 to 320. The result is the returned client
  transport (\<open>None\<close> for \<^verbatim>\<open>NULL\<close>; line 289 returns \<^verbatim>\<open>FALSE\<close>, the same pointer) and the
  content of the \<^verbatim>\<open>error\<close> out-parameter. \<^verbatim>\<open>_dbus_verbose\<close> and
  \<^verbatim>\<open>_dbus_fd_set_close_on_exec\<close> change nothing that the state records.
\<close>

definition dbus_transport_debug_pipe_new ::
  "(alloc_site \<Rightarrow> bool) \<Rightarrow> string \<Rightarrow> pipe_state \<Rightarrow> fault + ((nat option \<times> DBusError option) \<times> pipe_state)" where
  "dbus_transport_debug_pipe_new ok server_name s =
     (case server_pipe_hash s of
        None \<Rightarrow> Inr ((None, Some (DBUS_ERROR_NO_SERVER, None)), s)
      | Some h \<Rightarrow>
          (case dbus_hash_table_lookup_string h server_name of
             None \<Rightarrow> Inr ((None, Some (DBUS_ERROR_NO_SERVER, None)), s)
           | Some server \<Rightarrow>
               (case map_of (servers s) server of
                  None \<Rightarrow> Inl InvalidPointer
                | Some v \<Rightarrow>
                    if disconnected v then Inr ((None, Some (DBUS_ERROR_NO_SERVER, None)), s)
                    else if \<not> ok StringInit then Inr ((None, Some (DBUS_ERROR_NO_MEMORY, None)), s)
                    else
                      (let s1 = dbus_string_init s in
                       if \<not> (ok StringAppendPrefix \<and> ok StringAppendName)
                       then Inr ((None, Some (DBUS_ERROR_NO_MEMORY, None)), dbus_string_free s1)
                       else
                         (let address = ''debug-pipe:name='' @ server_name in
                          if \<not> ok FullDuplexPipe
                          then Inr ((None, Some (DBUS_ERROR_FAILED, Some ''Could not create full-duplex pipe'')),
                                    dbus_string_free s1)
                          else
                            (let (client_fd, server_fd, s2) = dbus_full_duplex_pipe s1 in
                             if \<not> ok ClientTransportNew
                             then Inr ((None, Some (DBUS_ERROR_NO_MEMORY, None)),
                                       dbus_string_free (dbus_close server_fd (dbus_close client_fd s2)))
                             else
                               (let (client_transport, s3) =
                                      dbus_transport_new_for_fd client_fd False (Some address) s2;
                                    s4 = dbus_string_free s3
                                in
                                if \<not> ok ServerTransportNew
                                then Inr ((None, Some (DBUS_ERROR_NO_MEMORY, None)),
                                          dbus_close server_fd (dbus_transport_unref client_transport s4))
                                else
                                  (let (server_transport, s5) =
                                         dbus_transport_new_for_fd server_fd True None s4
                                   in
                                   if \<not> ok SetAuthMechanisms
                                   then Inr ((None, Some (DBUS_ERROR_NO_MEMORY, None)),
                                             dbus_transport_unref client_transport
                                               (dbus_transport_unref server_transport s5))
                                   else
                                     (let s6 = dbus_transport_set_auth_mechanisms server_transport
                                                 (base_auth_mechanisms v) s5
                                      in
                                      if \<not> ok ConnectionNew
                                      then Inr ((None, Some (DBUS_ERROR_NO_MEMORY, None)),
                                                dbus_transport_unref client_transport
                                                  (dbus_transport_unref server_transport s6))
                                      else
                                        (let (connection, s7) =
                                               dbus_connection_new_for_transport server_transport s6;
                                             s8 = dbus_transport_unref server_transport s7
                                         in
                                         (case hand_off server connection s8 of
                                            Inl e \<Rightarrow> Inl e
                                          | Inr s9 \<Rightarrow>
                                              Inr ((Some client_transport, None),
                                                   dbus_connection_unref connection s9))))))))))))"

subsection \<open>Observations and concrete states\<close>

text \<open>The registry as the two file-level variables together.\<close>

definition registry :: "pipe_state \<Rightarrow> (string \<times> nat) list option \<times> int" where
  "registry s = (server_pipe_hash s, server_pipe_hash_refcount s)"

text \<open>\<open>registry_released_once s s'\<close>: the registry of \<open>s'\<close> is the registry of \<open>s\<close> after
  one \<^verbatim>\<open>pipe_hash_unref\<close>.\<close>

definition registry_released_once :: "pipe_state \<Rightarrow> pipe_state \<Rightarrow> bool" where
  "registry_released_once s s' =
     (case pipe_hash_unref s of Inl e \<Rightarrow> False | Inr s1 \<Rightarrow> registry s' = registry s1)"

text \<open>The address and the server flag a transport was made with.\<close>

definition transport_kind :: "pipe_state \<Rightarrow> nat \<Rightarrow> (string option \<times> bool) option" where
  "transport_kind s t = map_option (\<lambda>v. (t_address v, t_is_server v)) (map_of (transports s) t)"

text \<open>Fault plans: every allocation succeeds, or all but the one named.\<close>

definition ok_all :: "alloc_site \<Rightarrow> bool" where
  "ok_all site = True"

definition fail_at :: "alloc_site \<Rightarrow> alloc_site \<Rightarrow> bool" where
  "fail_at x site = (site \<noteq> x)"

text \<open>The endpoint object that a successful \<^verbatim>\<open>_dbus_server_debug_pipe_new\<close> leaves for name
  \<open>n\<close>, and the states that the calls of the scenarios below go through.\<close>

definition endpoint_object :: "string \<Rightarrow> DBusServerDebugPipe" where
  "endpoint_object n =
     \<lparr>base_refcount = 1, base_address = Some (''debug-pipe:name='' @ n),
      base_new_connection_function = None, base_auth_mechanisms = None,
      name = Some n, disconnected = False\<rparr>"

definition alpha_state :: pipe_state where
  "alpha_state =
     \<lparr>server_pipe_hash = Some [(''alpha'', 1)], server_pipe_hash_refcount = 1,
      servers = [(1, endpoint_object ''alpha'')],
      transports = [], connections = [], live_strings = 0, open_fds = [], next_id = 2\<rparr>"

definition alpha_beta_state :: pipe_state where
  "alpha_beta_state =
     \<lparr>server_pipe_hash = Some [(''alpha'', 1), (''beta'', 2)], server_pipe_hash_refcount = 1,
      servers = [(1, endpoint_object ''alpha''), (2, endpoint_object ''beta'')],
      transports = [], connections = [], live_strings = 0, open_fds = [], next_id = 3\<rparr>"

definition beta_orphan_state :: pipe_state where
  "beta_orphan_state =
     \<lparr>server_pipe_hash = None, server_pipe_hash_refcount = 0,
      servers = [(2, endpoint_object ''beta'')],
      transports = [], connections = [], live_strings = 0, open_fds = [], next_id = 3\<rparr>"

definition delta_state :: "bool \<Rightarrow> pipe_state" where
  "delta_state d =
     \<lparr>server_pipe_hash = Some [(''delta'', 1)], server_pipe_hash_refcount = 1,
      servers = [(1, (endpoint_object ''delta'')\<lparr>disconnected := d\<rparr>)],
      transports = [], connections = [], live_strings = 0, open_fds = [], next_id = 2\<rparr>"






definition alpha_connected_state :: pipe_state where
  "alpha_connected_state =
     \<lparr>server_pipe_hash = Some [(''alpha'', 1)], server_pipe_hash_refcount = 1,
      servers = [(1, endpoint_object ''alpha'')],
      transports =
        [(4, \<lparr>t_refcount = 1, t_fd = 2, t_is_server = False,
              t_address = Some ''debug-pipe:name=alpha'', t_auth_mechanisms = None\<rparr>),
         (5, \<lparr>t_refcount = 0, t_fd = 3, t_is_server = True,
              t_address = None, t_auth_mechanisms = None\<rparr>)],
      connections = [(6, \<lparr>c_refcount = 0, c_transport = 5\<rparr>)],
      live_strings = 0, open_fds = [2], next_id = 7\<rparr>"

section \<open>Frame lemmas\<close>

lemma string_free_init [simp]: "dbus_string_free (dbus_string_init s) = s"
  by (simp add: dbus_string_free_def dbus_string_init_def)

lemma frame_string_init [simp]:
  "server_pipe_hash (dbus_string_init s) = server_pipe_hash s"
  "server_pipe_hash_refcount (dbus_string_init s) = server_pipe_hash_refcount s"
  "servers (dbus_string_init s) = servers s"
  "next_id (dbus_string_init s) = next_id s"
  by (simp_all add: dbus_string_init_def)

lemma frame_string_free [simp]:
  "server_pipe_hash (dbus_string_free s) = server_pipe_hash s"
  "server_pipe_hash_refcount (dbus_string_free s) = server_pipe_hash_refcount s"
  "servers (dbus_string_free s) = servers s"
  "next_id (dbus_string_free s) = next_id s"
  by (simp_all add: dbus_string_free_def)

lemma frame_close [simp]:
  "server_pipe_hash (dbus_close fd s) = server_pipe_hash s"
  "server_pipe_hash_refcount (dbus_close fd s) = server_pipe_hash_refcount s"
  "servers (dbus_close fd s) = servers s"
  by (simp_all add: dbus_close_def)

lemma frame_transport_ref [simp]:
  "server_pipe_hash (dbus_transport_ref t s) = server_pipe_hash s"
  "server_pipe_hash_refcount (dbus_transport_ref t s) = server_pipe_hash_refcount s"
  "servers (dbus_transport_ref t s) = servers s"
  by (simp_all add: dbus_transport_ref_def split: option.splits)

lemma frame_transport_unref [simp]:
  "server_pipe_hash (dbus_transport_unref t s) = server_pipe_hash s"
  "server_pipe_hash_refcount (dbus_transport_unref t s) = server_pipe_hash_refcount s"
  "servers (dbus_transport_unref t s) = servers s"
  by (simp_all add: dbus_transport_unref_def Let_def split: option.splits)

lemma frame_set_auth [simp]:
  "server_pipe_hash (dbus_transport_set_auth_mechanisms t m s) = server_pipe_hash s"
  "server_pipe_hash_refcount (dbus_transport_set_auth_mechanisms t m s) = server_pipe_hash_refcount s"
  "servers (dbus_transport_set_auth_mechanisms t m s) = servers s"
  "next_id (dbus_transport_set_auth_mechanisms t m s) = next_id s"
  by (simp_all add: dbus_transport_set_auth_mechanisms_def split: option.splits)

lemma frame_connection_ref [simp]:
  "server_pipe_hash (dbus_connection_ref c s) = server_pipe_hash s"
  "server_pipe_hash_refcount (dbus_connection_ref c s) = server_pipe_hash_refcount s"
  "servers (dbus_connection_ref c s) = servers s"
  by (simp_all add: dbus_connection_ref_def split: option.splits)

lemma frame_connection_unref [simp]:
  "server_pipe_hash (dbus_connection_unref c s) = server_pipe_hash s"
  "server_pipe_hash_refcount (dbus_connection_unref c s) = server_pipe_hash_refcount s"
  "servers (dbus_connection_unref c s) = servers s"
  by (simp_all add: dbus_connection_unref_def Let_def split: option.splits)

lemma frame_pipe [simp]:
  "fst (dbus_full_duplex_pipe s) = next_id s"
  "fst (snd (dbus_full_duplex_pipe s)) = next_id s + 1"
  "next_id (snd (snd (dbus_full_duplex_pipe s))) = next_id s + 2"
  "server_pipe_hash (snd (snd (dbus_full_duplex_pipe s))) = server_pipe_hash s"
  "server_pipe_hash_refcount (snd (snd (dbus_full_duplex_pipe s))) = server_pipe_hash_refcount s"
  "servers (snd (snd (dbus_full_duplex_pipe s))) = servers s"
  by (simp_all add: dbus_full_duplex_pipe_def)

lemma frame_new_for_fd [simp]:
  "fst (dbus_transport_new_for_fd fd b a s) = next_id s"
  "next_id (snd (dbus_transport_new_for_fd fd b a s)) = next_id s + 1"
  "server_pipe_hash (snd (dbus_transport_new_for_fd fd b a s)) = server_pipe_hash s"
  "server_pipe_hash_refcount (snd (dbus_transport_new_for_fd fd b a s)) = server_pipe_hash_refcount s"
  "servers (snd (dbus_transport_new_for_fd fd b a s)) = servers s"
  by (simp_all add: dbus_transport_new_for_fd_def)

lemma frame_connection_new [simp]:
  "server_pipe_hash (snd (dbus_connection_new_for_transport t s)) = server_pipe_hash s"
  "server_pipe_hash_refcount (snd (dbus_connection_new_for_transport t s)) = server_pipe_hash_refcount s"
  "servers (snd (dbus_connection_new_for_transport t s)) = servers s"
  by (simp_all add: dbus_connection_new_for_transport_def)

lemma frame_server_update [simp]:
  "server_pipe_hash (server_update p f s) = server_pipe_hash s"
  "server_pipe_hash_refcount (server_update p f s) = server_pipe_hash_refcount s"
  "transports (server_update p f s) = transports s"
  by (simp_all add: server_update_def split: option.splits)

lemma servers_server_update [simp]:
  "map_of (servers (server_update p f s)) q =
     (if q = p then map_option f (map_of (servers s) p) else map_of (servers s) q)"
  by (auto simp: server_update_def update_conv' split: option.splits)

lemma frame_free_server [simp]:
  "server_pipe_hash (dbus_free_server p s) = server_pipe_hash s"
  "server_pipe_hash_refcount (dbus_free_server p s) = server_pipe_hash_refcount s"
  "transports (dbus_free_server p s) = transports s"
  by (simp_all add: dbus_free_server_def)

lemma servers_free_server [simp]:
  "map_of (servers (dbus_free_server p s)) q = (if q = p then None else map_of (servers s) q)"
  by (simp add: dbus_free_server_def delete_conv')

lemma frame_finalize_base [simp]:
  "server_pipe_hash (dbus_server_finalize_base p s) = server_pipe_hash s"
  "server_pipe_hash_refcount (dbus_server_finalize_base p s) = server_pipe_hash_refcount s"
  "transports (dbus_server_finalize_base p s) = transports s"
  by (simp_all add: dbus_server_finalize_base_def)

section \<open>The registry release\<close>

lemma pipe_hash_unref_Inr:
  "pipe_hash_unref s = Inr s1 \<longleftrightarrow>
     server_pipe_hash s \<noteq> None \<and> 0 < server_pipe_hash_refcount s \<and>
     s1 = s\<lparr>server_pipe_hash_refcount := server_pipe_hash_refcount s - 1,
            server_pipe_hash := (if server_pipe_hash_refcount s = 1 then None else server_pipe_hash s)\<rparr>"
  by (auto simp: pipe_hash_unref_def Let_def)

lemma pipe_hash_unref_registry:
  "registry t = registry s \<Longrightarrow> pipe_hash_unref t = Inr t1 \<Longrightarrow>
     \<exists>s1. pipe_hash_unref s = Inr s1 \<and> registry s1 = registry t1"
  by (auto simp: pipe_hash_unref_Inr registry_def)

lemma pipe_hash_unref_frame:
  "pipe_hash_unref s = Inr s1 \<Longrightarrow> servers s1 = servers s \<and> transports s1 = transports s"
  by (auto simp: pipe_hash_unref_Inr)

lemma registry_released_once_cong:
  "registry t = registry s \<Longrightarrow> registry_released_once t s' \<Longrightarrow> registry_released_once s s'"
  by (auto simp: registry_released_once_def split: sum.splits dest: pipe_hash_unref_registry)

section \<open>References on the server\<close>

lemma debug_finalize_effect:
  assumes "debug_finalize p s = Inr s'"
  shows "map_of (servers s') p = None \<and> registry_released_once s s' \<and> transports s' = transports s"
proof -
  from assms obtain s1 where u: "pipe_hash_unref s = Inr s1"
    and s': "s' = dbus_free_server p (server_update p (\<lambda>v. v\<lparr>name := None\<rparr>)
                     (dbus_server_finalize_base p s1))"
    by (auto simp: debug_finalize_def split: option.splits sum.splits)
  from s' have "map_of (servers s') p = None" and "registry s' = registry s1"
    and "transports s' = transports s1"
    by (simp_all add: registry_def)
  with u pipe_hash_unref_frame [OF u] show ?thesis by (simp add: registry_released_once_def)
qed

lemma server_ref_effect:
  "dbus_server_ref p s = Inr s' \<Longrightarrow>
     map_of (servers s') p \<noteq> None \<and> registry s' = registry s \<and> transports s' = transports s"
  by (auto simp: dbus_server_ref_def registry_def split: option.splits)

lemma server_unref_effect:
  assumes "dbus_server_unref p s = Inr s'"
  shows "((map_of (servers s') p \<noteq> None \<and> registry s' = registry s)
          \<or> (map_of (servers s') p = None \<and> registry_released_once s s'))
       \<and> transports s' = transports s"
proof -
  from assms obtain v where live: "map_of (servers s) p = Some v"
    by (auto simp: dbus_server_unref_def split: option.splits)
  let ?s1 = "server_update p (\<lambda>v. v\<lparr>base_refcount := base_refcount v - 1\<rparr>) s"
  have reg1: "registry ?s1 = registry s" by (simp add: registry_def)
  show ?thesis
  proof (cases "base_refcount v = 1")
    case True
    with assms live have "debug_finalize p ?s1 = Inr s'" by (simp add: dbus_server_unref_def)
    from debug_finalize_effect [OF this] registry_released_once_cong [OF reg1, of s']
    show ?thesis by simp
  next
    case False
    with assms live have "s' = ?s1" by (simp add: dbus_server_unref_def)
    with live reg1 show ?thesis by simp
  qed
qed


lemma debug_disconnect_frame:
  "debug_disconnect p s = Inr s' \<Longrightarrow> registry s' = registry s \<and> transports s' = transports s"
  by (auto simp: debug_disconnect_def registry_def split: option.splits)

lemma pipe_hash_ref_transports:
  "pipe_hash_ref ok s = Inr (b, s') \<Longrightarrow> transports s' = transports s"
  by (auto simp: pipe_hash_ref_def split: if_splits)

lemma nomem_0_transports: "nomem_0 s = Inr (r, s') \<Longrightarrow> transports s' = transports s"
  by (auto simp: nomem_0_def split: sum.splits dest: pipe_hash_unref_frame)

lemma nomem_1_transports: "nomem_1 p s = Inr (r, s') \<Longrightarrow> transports s' = transports s"
  by (auto simp: nomem_1_def dest: nomem_0_transports)

lemma nomem_2_transports: "nomem_2 p s = Inr (r, s') \<Longrightarrow> transports s' = transports s"
  by (auto simp: nomem_2_def dbus_string_free_def dest: nomem_1_transports)

lemma nomem_3_transports: "nomem_3 p s = Inr (r, s') \<Longrightarrow> transports s' = transports s"
  by (auto simp: nomem_3_def dest: nomem_2_transports)

lemma nomem_4_transports: "nomem_4 p s = Inr (r, s') \<Longrightarrow> transports s' = transports s"
  by (auto simp: nomem_4_def dest: nomem_3_transports)

lemma dbus_new0_transports [simp]: "transports (snd (dbus_new0 s)) = transports s"
  by (simp add: dbus_new0_def)

lemma string_transports [simp]:
  "transports (dbus_string_init s) = transports s"
  "transports (dbus_string_free s) = transports s"
  by (simp_all add: dbus_string_init_def dbus_string_free_def)

lemma init_base_transports [simp]: "transports (dbus_server_init_base p a s) = transports s"
  by (simp add: dbus_server_init_base_def)

lemma server_new_transports:
  assumes "dbus_server_debug_pipe_new ok server_name s = Inr (r, s')"
  shows "transports s' = transports s"
proof -
  from assms obtain b s1 where ref: "pipe_hash_ref ok s = Inr (b, s1)"
    by (auto simp: dbus_server_debug_pipe_new_def split: sum.splits)
  from pipe_hash_ref_transports [OF ref] have t1: "transports s1 = transports s" .
  from assms ref have "transports s' = transports s1"
    by (auto simp: dbus_server_debug_pipe_new_def Let_def split_beta
        split: option.splits if_splits sum.splits bool.splits
        dest!: pipe_hash_unref_frame nomem_0_transports nomem_1_transports nomem_2_transports
          nomem_3_transports nomem_4_transports)
  with t1 show ?thesis by simp
qed

section \<open>The hand-off\<close>


section \<open>The path of a successful connection\<close>



section \<open>What a transport was made with\<close>

lemma transport_kind_cong: "transports s' = transports s \<Longrightarrow> transport_kind s' t = transport_kind s t"
  by (simp add: transport_kind_def)

lemma transport_kind_string_init [simp]: "transport_kind (dbus_string_init s) t = transport_kind s t"
  by (simp add: transport_kind_def dbus_string_init_def)

lemma transport_kind_string_free [simp]: "transport_kind (dbus_string_free s) t = transport_kind s t"
  by (simp add: transport_kind_def dbus_string_free_def)

lemma transport_kind_close [simp]: "transport_kind (dbus_close fd s) t = transport_kind s t"
  by (simp add: transport_kind_def dbus_close_def)

lemma transport_kind_transport_ref [simp]: "transport_kind (dbus_transport_ref u s) t = transport_kind s t"
  by (auto simp: transport_kind_def dbus_transport_ref_def update_conv' split: option.splits)

lemma transport_kind_transport_unref [simp]:
  "transport_kind (dbus_transport_unref u s) t = transport_kind s t"
  by (auto simp: transport_kind_def dbus_transport_unref_def dbus_close_def Let_def update_conv'
      split: option.splits)

lemma transport_kind_set_auth [simp]:
  "transport_kind (dbus_transport_set_auth_mechanisms u m s) t = transport_kind s t"
  by (auto simp: transport_kind_def dbus_transport_set_auth_mechanisms_def update_conv'
      split: option.splits)

lemma transport_kind_connections_update [simp]:
  "transport_kind (s\<lparr>connections := x\<rparr>) t = transport_kind s t"
  by (simp add: transport_kind_def)

lemma transport_kind_connection_ref [simp]: "transport_kind (dbus_connection_ref c s) t = transport_kind s t"
  by (simp add: dbus_connection_ref_def split: option.splits)

lemma transport_kind_connection_unref [simp]:
  "transport_kind (dbus_connection_unref c s) t = transport_kind s t"
  by (simp add: dbus_connection_unref_def Let_def split: option.splits)

lemma transport_kind_pipe [simp]:
  "transport_kind (snd (snd (dbus_full_duplex_pipe s))) t = transport_kind s t"
  by (simp add: dbus_full_duplex_pipe_def transport_kind_def)

lemma transport_kind_new_for_fd [simp]:
  "transport_kind (snd (dbus_transport_new_for_fd fd b a s)) t =
     (if t = next_id s then Some (a, b) else transport_kind s t)"
  by (simp add: dbus_transport_new_for_fd_def transport_kind_def update_conv')

lemma transport_kind_next_id_update [simp]:
  "transport_kind (s\<lparr>next_id := x\<rparr>) t = transport_kind s t"
  by (simp add: transport_kind_def)

lemma transport_kind_connection_new [simp]:
  "transport_kind (snd (dbus_connection_new_for_transport u s)) t = transport_kind s t"
  by (simp add: dbus_connection_new_for_transport_def)

lemma transport_kind_cb_step:
  assumes "cb_step p c a s = Inr s'"
  shows "transport_kind s' t = transport_kind s t"
proof (cases a)
  case CbServerRef
  with assms server_ref_effect [of p s s'] have "transports s' = transports s" by simp
  then show ?thesis by (rule transport_kind_cong)
next
  case CbServerUnref
  with assms server_unref_effect [of p s s'] have "transports s' = transports s" by simp
  then show ?thesis by (rule transport_kind_cong)
next
  case CbServerDisconnect
  with assms debug_disconnect_frame [of p s s'] have "transports s' = transports s" by simp
  then show ?thesis by (rule transport_kind_cong)
next
  case CbConnectionRef
  with assms show ?thesis by auto
next
  case CbConnectionUnref
  with assms show ?thesis by auto
next
  case (CbOtherServerRef q)
  with assms server_ref_effect [of q s s'] have "transports s' = transports s" by simp
  then show ?thesis by (rule transport_kind_cong)
next
  case (CbOtherServerUnref q)
  with assms server_unref_effect [of q s s'] have "transports s' = transports s" by simp
  then show ?thesis by (rule transport_kind_cong)
next
  case (CbOtherServerDisconnect q)
  with assms debug_disconnect_frame [of q s s'] have "transports s' = transports s" by simp
  then show ?thesis by (rule transport_kind_cong)
next
  case (CbServerNew fails server_name)
  with assms obtain r where "dbus_server_debug_pipe_new (\<lambda>site. site \<notin> set fails) server_name s = Inr (r, s')"
    by (auto split: sum.splits)
  then have "transports s' = transports s" by (rule server_new_transports)
  then show ?thesis by (rule transport_kind_cong)
qed

lemma transport_kind_run_callback:
  "run_callback p c acts s = Inr s' \<Longrightarrow> transport_kind s' t = transport_kind s t"
proof (induction acts arbitrary: s)
  case Nil
  then show ?case by simp
next
  case (Cons a acts)
  from Cons.prems obtain s1 where step: "cb_step p c a s = Inr s1"
    and rest: "run_callback p c acts s1 = Inr s'"
    by (auto split: sum.splits)
  from transport_kind_cb_step [OF step] Cons.IH [OF rest] show ?case by simp
qed

lemma transport_kind_hand_off:
  assumes "hand_off p c s = Inr s'"
  shows "transport_kind s' t = transport_kind s t"
proof -
  from assms obtain v where live: "map_of (servers s) p = Some v"
    by (auto simp: hand_off_def split: option.splits)
  show ?thesis
  proof (cases "base_new_connection_function v")
    case None
    with assms live show ?thesis by (simp add: hand_off_def)
  next
    case (Some f)
    with assms live obtain s1 s2 where r: "dbus_server_ref p s = Inr s1"
      and c: "run_callback p c f s1 = Inr s2" and u: "dbus_server_unref p s2 = Inr s'"
      by (auto simp: hand_off_def split: sum.splits)
    from server_ref_effect [OF r] have "transports s1 = transports s" by simp
    then have "transport_kind s1 t = transport_kind s t" by (rule transport_kind_cong)
    moreover from transport_kind_run_callback [OF c] have "transport_kind s2 t = transport_kind s1 t" .
    moreover from server_unref_effect [OF u] have "transports s' = transports s2" by simp
    then have "transport_kind s' t = transport_kind s2 t" by (rule transport_kind_cong)
    ultimately show ?thesis by simp
  qed
qed

section \<open>The claims\<close>

text \<open>
  C1. With an endpoint live under a name, a second \<^verbatim>\<open>_dbus_server_debug_pipe_new\<close> for the
  same name should fail with \<^verbatim>\<open>DBUS_ERROR_ADDRESS_IN_USE\<close> and leave the first endpoint,
  the use-count and the entries of the registry as they were. The code fails with that
  error and leaves the endpoint object alone, but it does not leave the registry alone.
  Creating \<open>alpha\<close> in the initial state gives \<open>alpha_state\<close>, with use-count 1. The
  second call runs \<^verbatim>\<open>pipe_hash_ref\<close>, where line 80 stores 1 in the count instead of
  adding 1, and then unwinds with \<^verbatim>\<open>pipe_hash_unref\<close>, which takes the count to 0 and
  frees the table: the use-count goes from 1 to 0 and the entry for \<open>alpha\<close> is gone.
\<close>

theorem second_create_releases_registry:
  "dbus_server_debug_pipe_new ok_all ''alpha'' initial_state = Inr ((Some 1, None), alpha_state)
   \<and> dbus_server_debug_pipe_new ok_all ''alpha'' alpha_state =
       Inr ((None, Some (DBUS_ERROR_ADDRESS_IN_USE, None)),
            alpha_state\<lparr>server_pipe_hash := None, server_pipe_hash_refcount := 0\<rparr>)
   \<and> registry alpha_state = (Some [(''alpha'', 1)], 1)"
  by code_simp

text \<open>
  C2. A \<^verbatim>\<open>_dbus_server_debug_pipe_new\<close> that fails for lack of memory should leave the
  use-count and the entries of the registry as they were. With the endpoint \<open>alpha\<close>
  live, a call for \<open>beta\<close> whose \<^verbatim>\<open>dbus_new0\<close> fails goes to \<^verbatim>\<open>nomem_0\<close>; the
  \<^verbatim>\<open>pipe_hash_unref\<close> there undoes a \<^verbatim>\<open>pipe_hash_ref\<close> that had stored 1 in a count that
  was 1 already, so the count reaches 0 and the table with the entry of \<open>alpha\<close> is
  freed. The same happens when the insertion into the table fails.
\<close>

theorem failed_create_releases_registry:
  "dbus_server_debug_pipe_new ok_all ''alpha'' initial_state = Inr ((Some 1, None), alpha_state)
   \<and> dbus_server_debug_pipe_new (fail_at ServerNew0) ''beta'' alpha_state =
       Inr ((None, Some (DBUS_ERROR_NO_MEMORY, None)),
            alpha_state\<lparr>server_pipe_hash := None, server_pipe_hash_refcount := 0\<rparr>)
   \<and> dbus_server_debug_pipe_new (fail_at HashTableInsert) ''beta'' alpha_state =
       Inr ((None, Some (DBUS_ERROR_NO_MEMORY, None)),
            alpha_state\<lparr>server_pipe_hash := None, server_pipe_hash_refcount := 0, next_id := 3\<rparr>)"
  by code_simp

text \<open>
  C3. A successful \<^verbatim>\<open>pipe_hash_ref\<close> should add one to the use-count. In \<open>alpha_state\<close>,
  reached by creating one endpoint, the count is 1; \<^verbatim>\<open>pipe_hash_ref\<close> succeeds there and
  the count is still 1, not 2: the state is the same as before the call.
\<close>

theorem pipe_hash_ref_stores_one:
  "dbus_server_debug_pipe_new ok_all ''alpha'' initial_state = Inr ((Some 1, None), alpha_state)
   \<and> server_pipe_hash_refcount alpha_state = 1
   \<and> pipe_hash_ref ok_all alpha_state = Inr (True, alpha_state)"
  by code_simp

text \<open>
  C4. When the \<^verbatim>\<open>pipe_hash_ref\<close> at the start of \<^verbatim>\<open>_dbus_server_debug_pipe_new\<close> fails, the
  call should report \<^verbatim>\<open>DBUS_ERROR_NO_MEMORY\<close> through its \<^verbatim>\<open>error\<close> parameter. In the
  initial state, with the allocation of the table failing, the code returns \<^verbatim>\<open>NULL\<close>
  and the error is still clear: line 140 returns without \<^verbatim>\<open>dbus_set_error\<close>, which
  every other failure path of the function calls.
\<close>

theorem failed_acquire_sets_no_error:
  "dbus_server_debug_pipe_new (fail_at HashTableNew) ''alpha'' initial_state =
     Inr ((None, None), initial_state)"
  by code_simp

text \<open>
  C5. The table should be allocated exactly when some endpoint is live. Creating
  \<open>alpha\<close> and then \<open>beta\<close> leaves the use-count at 1 with two live endpoints;
  releasing the last reference of \<open>alpha\<close> runs \<^verbatim>\<open>debug_finalize\<close>, whose
  \<^verbatim>\<open>pipe_hash_unref\<close> takes the count to 0 and frees the table while \<open>beta\<close> is live.
  From then on a connection to \<open>beta\<close> fails with \<^verbatim>\<open>DBUS_ERROR_NO_SERVER\<close>, and
  finalizing \<open>beta\<close> stops at the assertion of line 88.
\<close>

theorem finalize_frees_registry_of_live_endpoint:
  "dbus_server_debug_pipe_new ok_all ''alpha'' initial_state = Inr ((Some 1, None), alpha_state)
   \<and> dbus_server_debug_pipe_new ok_all ''beta'' alpha_state = Inr ((Some 2, None), alpha_beta_state)
   \<and> server_pipe_hash_refcount alpha_beta_state = 1
   \<and> dbus_server_unref 1 alpha_beta_state = Inr beta_orphan_state
   \<and> map_of (servers beta_orphan_state) 2 = Some (endpoint_object ''beta'')
   \<and> server_pipe_hash beta_orphan_state = None
   \<and> dbus_transport_debug_pipe_new ok_all ''beta'' beta_orphan_state =
       Inr ((None, Some (DBUS_ERROR_NO_SERVER, None)), beta_orphan_state)
   \<and> dbus_server_unref 2 beta_orphan_state = Inl AssertionFailed"
  by code_simp

text \<open>
  C6. After \<^verbatim>\<open>debug_disconnect\<close> on the endpoint of a name, a connection to the name should
  fail with \<^verbatim>\<open>DBUS_ERROR_NO_SERVER\<close> and creating an endpoint under the name should fail
  with \<^verbatim>\<open>DBUS_ERROR_ADDRESS_IN_USE\<close> for as long as the endpoint is not finalized. For
  \<open>delta\<close> the connection fails as said, and so does the first creation; but that
  creation frees the table when it unwinds, so a second creation under \<open>delta\<close>
  succeeds and registers a second endpoint while the first one is still allocated.
\<close>

theorem create_after_disconnect_succeeds_at_second_try:
  "dbus_server_debug_pipe_new ok_all ''delta'' initial_state = Inr ((Some 1, None), delta_state False)
   \<and> debug_disconnect 1 (delta_state False) = Inr (delta_state True)
   \<and> dbus_transport_debug_pipe_new ok_all ''delta'' (delta_state True) =
       Inr ((None, Some (DBUS_ERROR_NO_SERVER, None)), delta_state True)
   \<and> dbus_server_debug_pipe_new ok_all ''delta'' (delta_state True) =
       Inr ((None, Some (DBUS_ERROR_ADDRESS_IN_USE, None)),
            (delta_state True)\<lparr>server_pipe_hash := None, server_pipe_hash_refcount := 0\<rparr>)
   \<and> dbus_server_debug_pipe_new ok_all ''delta''
         ((delta_state True)\<lparr>server_pipe_hash := None, server_pipe_hash_refcount := 0\<rparr>) =
       Inr ((Some 2, None),
            (delta_state True)
              \<lparr>server_pipe_hash := Some [(''delta'', 2)],
                servers := [(1, (endpoint_object ''delta'')\<lparr>disconnected := True\<rparr>),
                            (2, endpoint_object ''delta'')],
                next_id := 3\<rparr>)"
  by code_simp


text \<open>
  C8. Every successful \<^verbatim>\<open>_dbus_transport_debug_pipe_new\<close> for a name returns a client
  transport made with the address \<^verbatim>\<open>debug-pipe:name=\<close> followed by the name and with
  the server flag clear, and the transport made right after it (the server side, with the
  next identifier) has no address and the server flag set.
\<close>

theorem connect_transport_kinds:
  assumes "dbus_transport_debug_pipe_new ok server_name s = Inr ((Some client_transport, e), s')"
  shows "transport_kind s' client_transport = Some (Some (''debug-pipe:name='' @ server_name), False)
       \<and> transport_kind s' (client_transport + 1) = Some (None, True)"
  using assms
  by (auto simp: dbus_transport_debug_pipe_new_def Let_def split_beta transport_kind_hand_off
        split: option.splits if_splits sum.splits)

theorem connect_transport_kinds_witness:
  "dbus_transport_debug_pipe_new ok_all ''alpha'' alpha_state = Inr ((Some 4, None), alpha_connected_state)
   \<and> transport_kind alpha_connected_state 4 = Some (Some ''debug-pipe:name=alpha'', False)
   \<and> transport_kind alpha_connected_state 5 = Some (None, True)"
proof -
  have run: "dbus_transport_debug_pipe_new ok_all ''alpha'' alpha_state =
               Inr ((Some 4, None), alpha_connected_state)"
    by code_simp
  from connect_transport_kinds [OF run] run show ?thesis by simp
qed

text \<open>
  C9, as stated: when \<^verbatim>\<open>_dbus_full_duplex_pipe\<close> fails, the error carries the detail
  \<^verbatim>\<open>could not create full-duplex pipe\<close>. The message that line 248 sets begins with a
  capital letter: the result of the call is not the one with the detail as stated.
\<close>

theorem pipe_failure_detail_literal:
  "dbus_transport_debug_pipe_new (fail_at FullDuplexPipe) ''alpha'' alpha_state =
     Inr ((None, Some (DBUS_ERROR_FAILED, Some ''Could not create full-duplex pipe'')), alpha_state)
   \<and> dbus_transport_debug_pipe_new (fail_at FullDuplexPipe) ''alpha'' alpha_state \<noteq>
       Inr ((None, Some (DBUS_ERROR_FAILED, Some ''could not create full-duplex pipe'')), alpha_state)"
  by code_simp

text \<open>
  C9, amended. When \<^verbatim>\<open>_dbus_transport_debug_pipe_new\<close> has found a server that is not
  disconnected and has built the address, and \<^verbatim>\<open>_dbus_full_duplex_pipe\<close> fails, the call
  returns \<^verbatim>\<open>NULL\<close> with the error \<^verbatim>\<open>DBUS_ERROR_FAILED\<close> and the detail
  \<^verbatim>\<open>Could not create full-duplex pipe\<close>, and the state is the one before the call: the
  address string has been freed and nothing else was allocated.
\<close>

theorem pipe_failure_reported:
  assumes "server_pipe_hash s = Some h"
    and "dbus_hash_table_lookup_string h server_name = Some server"
    and "map_of (servers s) server = Some v"
    and "\<not> disconnected v"
    and "ok StringInit" and "ok StringAppendPrefix" and "ok StringAppendName"
    and "\<not> ok FullDuplexPipe"
  shows "dbus_transport_debug_pipe_new ok server_name s =
           Inr ((None, Some (DBUS_ERROR_FAILED, Some ''Could not create full-duplex pipe'')), s)"
  using assms by (simp add: dbus_transport_debug_pipe_new_def)

theorem pipe_failure_reported_witness:
  "server_pipe_hash alpha_state = Some [(''alpha'', 1)]
   \<and> \<not> fail_at FullDuplexPipe FullDuplexPipe
   \<and> dbus_transport_debug_pipe_new (fail_at FullDuplexPipe) ''alpha'' alpha_state =
       Inr ((None, Some (DBUS_ERROR_FAILED, Some ''Could not create full-duplex pipe'')), alpha_state)"
  using pipe_failure_reported [of alpha_state "[(''alpha'', 1)]" "''alpha''" 1
      "endpoint_object ''alpha''" "fail_at FullDuplexPipe"]
  by (simp add: alpha_state_def dbus_hash_table_lookup_string_def endpoint_object_def fail_at_def)





end
